theory Spec2Isabelle
  imports Main "HOL-Library.Sublist"
begin

section \<open>The module system of Extendables\<close>

text \<open>
  A shallow embedding of the module system of \<^verbatim>\<open>src/minified.jsx\<close>: the registry
  \<^verbatim>\<open>__modules__\<close>, the constructor \<^verbatim>\<open>Module\<close> with its methods, \<^verbatim>\<open>require\<close>,
  \<^verbatim>\<open>extract\<close>, \<^verbatim>\<open>load_modules\<close> and the log buffer. The ExtendScript host
  (\<^verbatim>\<open>$.evalFile\<close>, \<^verbatim>\<open>File\<close>, \<^verbatim>\<open>Folder\<close>) is not part of the repository: the
  evaluator is a parameter of the model and the file system is a tree.
\<close>

subsection \<open>Values, objects and property access\<close>

text \<open>
  The values that exports and globals hold. \<open>Fn n\<close> is the function object that the
  source binds under the name \<open>n\<close>.
\<close>

datatype jsval = Undefined | Bool bool | Num int | Str string | Fn string

text \<open>
  An object is the list of its own enumerable properties in creation order. The same
  representation serves \<^verbatim>\<open>__modules__\<close> and \<^verbatim>\<open>self.submodules\<close>, whose values are
  modules.
\<close>

type_synonym jsobj = "(string \<times> jsval) list"

text \<open>\<^verbatim>\<open>obj[k] = v\<close>: an existing own property keeps its place, a new one goes last.\<close>

fun set_prop :: "string \<Rightarrow> 'a \<Rightarrow> (string \<times> 'a) list \<Rightarrow> (string \<times> 'a) list" where
  "set_prop k v [] = [(k, v)]"
| "set_prop k v ((k', v') # ps) =
     (if k' = k then (k, v) # ps else (k', v') # set_prop k v ps)"

text \<open>
  The properties that \<^verbatim>\<open>src/minified.jsx\<close> assigns to \<^verbatim>\<open>Object.prototype\<close> (lines 19 to
  1455). Properties created by assignment are enumerable; \<^verbatim>\<open>extend\<close> is bound to the
  function \<^verbatim>\<open>merge\<close> (line 34). The host's built-in properties are not enumerable and
  are not listed.
\<close>

definition Object_prototype :: jsobj where
  "Object_prototype =
     [(''merge'', Fn ''merge''), (''extend'', Fn ''merge''), (''clone'', Fn ''clone''),
      (''keys'', Fn ''keys''), (''values'', Fn ''values''), (''is'', Fn ''is''),
      (''has'', Fn ''has''), (''has_own'', Fn ''has_own''),
      (''to_console'', Fn ''to_console''), (''serialize'', Fn ''serialize''),
      (''deserialize'', Fn ''deserialize''), (''to'', Fn ''to'')]"

text \<open>
  \<^verbatim>\<open>for (var name in obj)\<close> on an object literal: the own properties, then the
  enumerable properties of \<^verbatim>\<open>Object.prototype\<close> that no own property shadows.
\<close>

definition for_in :: "jsobj \<Rightarrow> string list" where
  "for_in obj =
     map fst obj @ filter (\<lambda>n. n \<notin> set (map fst obj)) (map fst Object_prototype)"

text \<open>\<^verbatim>\<open>obj[name]\<close> for a name that \<^verbatim>\<open>for_in\<close> yields: own first, then the prototype.\<close>

definition get_prop :: "jsobj \<Rightarrow> string \<Rightarrow> jsval" where
  "get_prop obj n =
     (case map_of obj n of
        Some v \<Rightarrow> v
      | None \<Rightarrow> (case map_of Object_prototype n of Some v \<Rightarrow> v | None \<Rightarrow> Undefined))"

text \<open>\<^verbatim>\<open>str.split(sep)\<close> for a separator of one character; the result is never empty.\<close>

fun split :: "char \<Rightarrow> string \<Rightarrow> string list" where
  "split sep [] = [[]]"
| "split sep (c # cs) =
     (if c = sep then [] # split sep cs
      else (case split sep cs of [] \<Rightarrow> [[c]] | t # ts \<Rightarrow> (c # t) # ts))"

subsection \<open>Errors, log messages, modules and the state\<close>

text \<open>
  \<open>Error msg\<close> is \<^verbatim>\<open>throw Error(msg)\<close>. \<open>TypeError\<close> is what the host raises when the
  code reads a property of \<^verbatim>\<open>undefined\<close> or \<^verbatim>\<open>null\<close>, or calls a value that is not a
  function; its message is the host's and names no module identifier.
\<close>

datatype error = Error string | TypeError

text \<open>An entry of \<^verbatim>\<open>log_buffer\<close>: the array \<^verbatim>\<open>[level, template, args...]\<close>.\<close>

record message =
  level :: int
  template :: string
  args :: "string list"

type_synonym uri = "string list"

text \<open>
  A \<^verbatim>\<open>Module\<close> object: \<^verbatim>\<open>id\<close>, \<^verbatim>\<open>uri\<close> (the absolute URI as its list of segments),
  \<^verbatim>\<open>packaged\<close>, \<^verbatim>\<open>submodules\<close> and \<^verbatim>\<open>exports\<close>. The constructor never assigns
  \<^verbatim>\<open>exports\<close>; \<open>None\<close> is \<^verbatim>\<open>undefined\<close>. Each module object is referenced from one
  place only (its parent's \<^verbatim>\<open>submodules\<close>, or \<^verbatim>\<open>__modules__\<close>), so the objects form
  a tree.
\<close>

datatype module =
  Module (module_id: string) (uri: uri) (packaged: bool)
         (submodules: "(string \<times> module) list") (exports: "jsobj option")

text \<open>
  The state that the module system reads and writes: the registry \<^verbatim>\<open>__modules__\<close>,
  the array \<^verbatim>\<open>log_buffer\<close> and the global object \<^verbatim>\<open>$.global\<close>. \<open>global\<close> holds
  the global variables that have been assigned since startup. The variable
  \<^verbatim>\<open>log_buffer\<close> is itself a property of the global object: an entry named
  \<^verbatim>\<open>log_buffer\<close> in \<open>global\<close> means that the variable has been assigned a value that
  is no array (no value of \<open>jsval\<close> is one), and the array is then out of reach. The
  variable \<^verbatim>\<open>__modules__\<close> and the functions of the module system are taken not to be
  reassigned.
\<close>

record state =
  modules :: "(string \<times> module) list"
  log_buffer :: "message list"
  global :: jsobj

text \<open>
  What an evaluated file leaves behind. It runs in the scope of \<^verbatim>\<open>Module.eval\<close>, where
  it sees and can assign the local variables \<^verbatim>\<open>exports\<close> (a fresh \<^verbatim>\<open>{}\<close>) and
  \<^verbatim>\<open>module\<close> (\<^verbatim>\<open>{id, uri}\<close>) and every global, \<^verbatim>\<open>log_buffer\<close> among them:
  \<^item> \<open>raised\<close>: the error the file raised, as the string that \<^verbatim>\<open>"\n" + error\<close>
    appends, or \<open>None\<close>;
  \<^item> \<open>exports_after\<close>: the contents of \<^verbatim>\<open>exports\<close> when evaluation stopped;
  \<^item> \<open>module_id_after\<close>: what \<^verbatim>\<open>module.id\<close> reads then, as a string, or \<open>None\<close> when
    \<^verbatim>\<open>module\<close> no longer holds an object;
  \<^item> \<open>log_buffer_after\<close>: the messages in the array \<^verbatim>\<open>log_buffer\<close>;
  \<^item> \<open>global_after\<close>: the global object.
\<close>

record outcome =
  raised :: "string option"
  exports_after :: jsobj
  module_id_after :: "string option"
  log_buffer_after :: "message list"
  global_after :: jsobj

text \<open>
  \<^verbatim>\<open>$.evalFile(file)\<close> as called from \<^verbatim>\<open>Module.eval\<close>: a parameter of the model, from
  the file, the module's id, the messages in \<^verbatim>\<open>log_buffer\<close> and the global object to
  the outcome. Module sources are taken not to call back into \<^verbatim>\<open>require\<close>.
\<close>

type_synonym evalFile = "uri \<Rightarrow> string \<Rightarrow> message list \<Rightarrow> jsobj \<Rightarrow> outcome"

subsection \<open>Module.eval, Module.load, Module.get_submodule\<close>

text \<open>
  \<^verbatim>\<open>Module.eval\<close>. The catch block evaluates
  \<^verbatim>\<open>log_buffer.push([3, "Could not fully load " + module.id + "\n" + error])\<close> with what
  the file left: it raises when \<^verbatim>\<open>module\<close> no longer holds an object or when
  \<^verbatim>\<open>log_buffer\<close> no longer holds the array, and nothing catches that.
\<close>

definition eval :: "evalFile \<Rightarrow> module \<Rightarrow> uri \<Rightarrow> state \<Rightarrow> (error + jsobj) \<times> state" where
  "eval ev self file s =
     (let out = ev file (module_id self) (log_buffer s) (global s);
          s' = s\<lparr>log_buffer := log_buffer_after out, global := global_after out\<rparr>
      in case raised out of
           None \<Rightarrow> (Inr (exports_after out), s')
         | Some err \<Rightarrow>
             (case (module_id_after out, map_of (global_after out) ''log_buffer'') of
                (Some i, None) \<Rightarrow>
                  (Inr (exports_after out),
                   s'\<lparr>log_buffer := log_buffer_after out @
                       [\<lparr>level = 3,
                         template = ''Could not fully load '' @ i @ [CHR 0x0A] @ err,
                         args = []\<rparr>]\<rparr>)
              | _ \<Rightarrow> (Inl TypeError, s')))"

text \<open>
  \<^verbatim>\<open>self.submodules['index']\<close> is \<^verbatim>\<open>undefined\<close> when there is no such own property
  (\<^verbatim>\<open>Object.prototype\<close> has no \<^verbatim>\<open>index\<close>), and \<^verbatim>\<open>undefined.load()\<close> raises. The
  result is \<^verbatim>\<open>self\<close> after the assignment to \<^verbatim>\<open>self.exports\<close>; the index child is
  the same object as before, with its own \<^verbatim>\<open>exports\<close> assigned. An error leaves before
  any assignment to a module.
\<close>

function load :: "evalFile \<Rightarrow> module \<Rightarrow> state \<Rightarrow> (error + module) \<times> state" where
  "load ev (Module i u p subs ex) s =
     (if p then
        (case map_of subs ''index'' of
           None \<Rightarrow> (Inl TypeError, s)
         | Some index \<Rightarrow>
             (case load ev index s of
                (Inl e, s') \<Rightarrow> (Inl e, s')
              | (Inr index', s') \<Rightarrow>
                  (Inr (Module i u p (set_prop ''index'' index' subs) (exports index')), s')))
      else
        (case eval ev (Module i u p subs ex) u s of
           (Inl e, s') \<Rightarrow> (Inl e, s')
         | (Inr exps, s') \<Rightarrow> (Inr (Module i u p subs (Some exps)), s')))"
  by pat_completeness auto
termination
proof (relation "measure (\<lambda>(ev, m, s). size m)", goal_cases)
  case 1
  show ?case by simp
next
  case (2 ev i u p subs ex s index)
  have "size m < Suc (size_list (size_prod (\<lambda>_. 0) size) ps)"
    if "map_of ps k = Some m" for ps :: "(string \<times> module) list" and k m
    using that by (induction ps) (auto split: if_splits)
  from this [OF 2(2)] show ?case by simp
qed

text \<open>
  \<^verbatim>\<open>get_submodule(terms)\<close>. The result \<open>Inr None\<close> is a value that is not a module:
  \<^verbatim>\<open>undefined\<close>, or a function inherited from \<^verbatim>\<open>Object.prototype\<close>. Calling
  \<^verbatim>\<open>get_submodule\<close> on such a value raises. \<^verbatim>\<open>terms.shift()\<close> on an empty array is
  \<^verbatim>\<open>undefined\<close>, which reads the property named \<^verbatim>\<open>undefined\<close>.
\<close>

fun get_submodule :: "module \<Rightarrow> string list \<Rightarrow> error + module option" where
  "get_submodule self [] = Inr (map_of (submodules self) ''undefined'')"
| "get_submodule self [t] = Inr (map_of (submodules self) t)"
| "get_submodule self (t # terms) =
     (case map_of (submodules self) t of
        None \<Rightarrow> Inl TypeError
      | Some submodule \<Rightarrow> get_submodule submodule terms)"

text \<open>
  \<^verbatim>\<open>get_submodule\<close> returns a reference, and \<^verbatim>\<open>load\<close> assigns to the object behind
  it. \<open>put_submodule self terms m\<close> is \<^verbatim>\<open>self\<close> after that assignment: the tree with
  \<open>m\<close> in the place that \<open>get_submodule self terms\<close> reads.
\<close>

fun put_submodule :: "module \<Rightarrow> string list \<Rightarrow> module \<Rightarrow> module" where
  "put_submodule (Module i u p subs ex) [] m = Module i u p (set_prop ''undefined'' m subs) ex"
| "put_submodule (Module i u p subs ex) [t] m = Module i u p (set_prop t m subs) ex"
| "put_submodule (Module i u p subs ex) (t # terms) m =
     (case map_of subs t of
        None \<Rightarrow> Module i u p subs ex
      | Some submodule \<Rightarrow> Module i u p (set_prop t (put_submodule submodule terms m) subs) ex)"

subsection \<open>require and extract\<close>

text \<open>
  \<^verbatim>\<open>__modules__.hasOwnProperty(module)\<close> looks at own properties only. The method
  itself is looked up on \<^verbatim>\<open>__modules__\<close>: once a module with the id
  \<^verbatim>\<open>hasOwnProperty\<close> is registered, the call applies a \<^verbatim>\<open>Module\<close> object, which is no
  function, and raises. The result \<open>Inr None\<close> is \<^verbatim>\<open>undefined\<close>, the value of
  \<^verbatim>\<open>exports\<close> of a module that never assigned it.
\<close>

definition require :: "evalFile \<Rightarrow> string \<Rightarrow> state \<Rightarrow> (error + jsobj option) \<times> state" where
  "require ev mid s =
     (let terms0 = split CHR ''/'' mid; module = hd terms0; terms = tl terms0 in
      if map_of (modules s) ''hasOwnProperty'' \<noteq> None then (Inl TypeError, s)
      else case map_of (modules s) module of
        Some m \<Rightarrow>
          (if terms \<noteq> [] then
             (case get_submodule m terms of
                Inl e \<Rightarrow> (Inl e, s)
              | Inr None \<Rightarrow> (Inl TypeError, s)
              | Inr (Some sub) \<Rightarrow>
                  (case load ev sub s of
                     (Inl e, s') \<Rightarrow> (Inl e, s')
                   | (Inr sub', s') \<Rightarrow>
                       (Inr (exports sub'),
                        s'\<lparr>modules :=
                             set_prop module (put_submodule m terms sub') (modules s')\<rparr>)))
           else
             (case load ev m s of
                (Inl e, s') \<Rightarrow> (Inl e, s')
              | (Inr m', s') \<Rightarrow>
                  (Inr (exports m'), s'\<lparr>modules := set_prop module m' (modules s')\<rparr>)))
      | None \<Rightarrow> (Inl (Error (''No package named '' @ mid)), s))"

text \<open>
  The function \<^verbatim>\<open>extract\<close> of the source (the name is a command of Isabelle).
  \<^verbatim>\<open>for (var name in module)\<close> runs no iteration when \<^verbatim>\<open>module\<close> is \<^verbatim>\<open>undefined\<close>.
\<close>

definition extract_module :: "evalFile \<Rightarrow> string \<Rightarrow> state \<Rightarrow> (error + unit) \<times> state" where
  "extract_module ev mid s =
     (case require ev mid s of
        (Inl e, s') \<Rightarrow> (Inl e, s')
      | (Inr None, s') \<Rightarrow> (Inr (), s')
      | (Inr (Some module), s') \<Rightarrow>
          (Inr (),
           s'\<lparr>global :=
                fold (\<lambda>name g. set_prop name (get_prop module name) g)
                     (for_in module) (global s')\<rparr>))"

subsection \<open>The file system and module discovery\<close>

text \<open>
  The file system that the host shows: a file, a folder with its entries, or an alias
  with the URI of its target. \<open>name\<close> stands for both \<^verbatim>\<open>name\<close> and \<^verbatim>\<open>displayName\<close>
  (names are taken to need no URI encoding).
\<close>

datatype fsnode =
  is_File: File (name: string)
| is_Folder: Folder (name: string) (entries: "fsnode list")
| is_Alias: Alias (name: string) (target: uri)

text \<open>
  A \<^verbatim>\<open>File\<close> or \<^verbatim>\<open>Folder\<close> object of the host: its \<^verbatim>\<open>absoluteURI\<close> and what the file
  system holds there. The host hands out a \<^verbatim>\<open>Folder\<close> object for a folder and a
  \<^verbatim>\<open>File\<close> object for a file and for an alias, so \<^verbatim>\<open>f.is(Folder)\<close> is
  \<open>is_Folder (snd f)\<close> and \<^verbatim>\<open>f.alias\<close> is \<open>is_Alias (snd f)\<close>.
\<close>

type_synonym fsobj = "uri \<times> fsnode"

text \<open>What the file system (its root folder) holds at an absolute URI.\<close>

fun lookup :: "fsnode \<Rightarrow> uri \<Rightarrow> fsnode option" where
  "lookup node [] = Some node"
| "lookup (Folder n es) (seg # path) =
     (case find (\<lambda>e. name e = seg) es of None \<Rightarrow> None | Some e \<Rightarrow> lookup e path)"
| "lookup node (seg # path) = None"

text \<open>
  \<^verbatim>\<open>base.changePath("./" + seg)\<close>; \<open>None\<close> when the new path names nothing that
  exists.
\<close>

definition changePath :: "fsobj \<Rightarrow> string \<Rightarrow> fsobj option" where
  "changePath f seg =
     (case snd f of
        Folder n es \<Rightarrow>
          (case find (\<lambda>e. name e = seg) es of
             None \<Rightarrow> None
           | Some e \<Rightarrow> Some (fst f @ [seg], e))
      | _ \<Rightarrow> None)"

text \<open>
  \<^verbatim>\<open>folder.getFiles(mask)\<close> with a function as mask: the entries for which the
  function holds, in directory order. \<open>None\<close> is the host's \<^verbatim>\<open>null\<close> for a path
  that is not an existing folder.
\<close>

definition getFiles :: "fsobj \<Rightarrow> (fsobj \<Rightarrow> bool) \<Rightarrow> fsobj list option" where
  "getFiles folder mask_fn =
     (case snd folder of
        Folder n es \<Rightarrow> Some (filter mask_fn (map (\<lambda>e. (fst folder @ [name e], e)) es))
      | _ \<Rightarrow> None)"

text \<open>
  A string mask of \<^verbatim>\<open>getFiles\<close>: \<^verbatim>\<open>*\<close> stands for any run of characters and \<^verbatim>\<open>?\<close>
  for one character; the mask is matched against the entry's name.
\<close>

fun glob :: "string \<Rightarrow> string \<Rightarrow> bool" where
  "glob [] s = (s = [])"
| "glob (p # ps) [] = (p = CHR ''*'' \<and> glob ps [])"
| "glob (p # ps) (c # cs) =
     (if p = CHR ''*'' then glob ps (c # cs) \<or> glob (p # ps) cs
      else if p = CHR ''?'' then glob ps cs
      else p = c \<and> glob ps cs)"

text \<open>\<^verbatim>\<open>str.indexOf(sub)\<close>: the first position where \<open>sub\<close> occurs, or \<open>-1\<close>.\<close>

fun indexOf :: "string \<Rightarrow> string \<Rightarrow> int" where
  "indexOf [] sub = (if sub = [] then 0 else -1)"
| "indexOf (c # cs) sub =
     (if prefix sub (c # cs) then 0
      else if indexOf cs sub < 0 then -1 else indexOf cs sub + 1)"

text \<open>
  \<^verbatim>\<open>String.prototype.endswith\<close> (line 204):
  \<^verbatim>\<open>this.length && this.indexOf(substring) == (this.length - substring.length)\<close>.
\<close>

definition endswith :: "string \<Rightarrow> string \<Rightarrow> bool" where
  "endswith s sub = (length s \<noteq> 0 \<and> indexOf s sub = int (length s) - int (length sub))"

text \<open>The function \<^verbatim>\<open>_is_valid_module\<close> of the source.\<close>

definition is_valid_module :: "fsobj \<Rightarrow> bool" where
  "is_valid_module file_or_folder =
     (is_Folder (snd file_or_folder) \<or> endswith (name (snd file_or_folder)) ''.jsx'')"

text \<open>
  The outcome of a \<^verbatim>\<open>forEach\<close> whose callback builds one module per element: the
  first constructor that raises ends the loop with its error.
\<close>

fun collect :: "(error + 'a) list \<Rightarrow> error + 'a list" where
  "collect [] = Inr []"
| "collect (Inl e # rs) = Inl e"
| "collect (Inr x # rs) = (case collect rs of Inl e \<Rightarrow> Inl e | Inr xs \<Rightarrow> Inr (x # xs))"

text \<open>
  The constructor \<^verbatim>\<open>Module(file_or_folder, is_package)\<close> with \<^verbatim>\<open>extract_submodules\<close>
  inlined. \<^verbatim>\<open>id\<close> is \<^verbatim>\<open>displayName.split('.')[0]\<close>, \<^verbatim>\<open>uri\<close> is read before
  \<^verbatim>\<open>changePath\<close>, \<^verbatim>\<open>packaged\<close> is \<^verbatim>\<open>is(Folder)\<close>. \<^verbatim>\<open>extract_submodules\<close> moves
  to \<^verbatim>\<open>./lib\<close> only under \<^verbatim>\<open>is_package\<close>, and constructs every child with
  \<^verbatim>\<open>new Module(submodule)\<close>, that is with \<^verbatim>\<open>is_package\<close> undefined. A \<^verbatim>\<open>null\<close> from
  \<^verbatim>\<open>getFiles\<close> raises at \<^verbatim>\<open>.forEach\<close>.
\<close>

function new_Module :: "fsobj \<Rightarrow> bool \<Rightarrow> error + module" where
  "new_Module file_or_folder is_package =
     (if is_Folder (snd file_or_folder) then
        (case (if is_package then changePath file_or_folder ''lib'' else Some file_or_folder) of
           None \<Rightarrow> Inl TypeError
         | Some base \<Rightarrow>
             (case getFiles base is_valid_module of
                None \<Rightarrow> Inl TypeError
              | Some submodule_files \<Rightarrow>
                  (case collect (map (\<lambda>submodule. new_Module submodule False) submodule_files) of
                     Inl e \<Rightarrow> Inl e
                   | Inr ms \<Rightarrow>
                       Inr (Module (hd (split CHR ''.'' (name (snd file_or_folder))))
                              (fst file_or_folder) True
                              (fold (\<lambda>m subs. set_prop (module_id m) m subs) ms []) None))))
      else Inr (Module (hd (split CHR ''.'' (name (snd file_or_folder))))
                  (fst file_or_folder) False [] None))"
  by pat_completeness auto
termination
proof (relation "measure (\<lambda>(f, b). size (snd f))", goal_cases)
  case 1
  show ?case by simp
next
  case (2 f is_package base files sub)
  have find_size: "size e < Suc (size_list size es)"
    if "find P es = Some e" for P e and es :: "fsnode list"
    using that by (induction es) (auto split: if_splits)
  have mem_size: "size e < Suc (size_list size es)"
    if "e \<in> set es" for e and es :: "fsnode list"
    using that by (induction es) auto
  have base: "size (snd base) \<le> size (snd f)"
    using 2(2)
    by (cases "snd f")
       (auto simp: changePath_def split: if_splits option.splits dest!: find_size)
  have "size (snd sub) < size (snd base)"
    using 2(3,4) by (cases "snd base") (auto simp: getFiles_def dest!: mem_size)
  with base show ?case by simp
qed

declare new_Module.simps [simp del]

text \<open>
  \<^verbatim>\<open>file.resolve()\<close>: a new object for the target of an alias, \<open>None\<close> (the host's
  \<^verbatim>\<open>null\<close>) when the object is no alias or the target does not exist.
\<close>

definition resolve :: "fsnode \<Rightarrow> fsobj \<Rightarrow> fsobj option" where
  "resolve root f =
     (case snd f of
        Alias n t \<Rightarrow> (case lookup root t of None \<Rightarrow> None | Some node \<Rightarrow> Some (t, node))
      | _ \<Rightarrow> None)"

text \<open>
  The inner callback of \<^verbatim>\<open>load_modules\<close>, run over \<^verbatim>\<open>packages\<close>: an alias is resolved,
  the module is built with \<^verbatim>\<open>is_package = true\<close> and stored under its id.
  \<^verbatim>\<open>new Module(null, true)\<close> raises at \<^verbatim>\<open>null.displayName\<close>.
\<close>

fun register_packages :: "fsnode \<Rightarrow> fsobj list \<Rightarrow> state \<Rightarrow> (error + unit) \<times> state" where
  "register_packages root [] s = (Inr (), s)"
| "register_packages root (file_or_folder # rest) s =
     (case (if is_Alias (snd file_or_folder) then resolve root file_or_folder
            else Some file_or_folder) of
        None \<Rightarrow> (Inl TypeError, s)
      | Some f \<Rightarrow>
          (case new_Module f True of
             Inl e \<Rightarrow> (Inl e, s)
           | Inr m \<Rightarrow>
               register_packages root rest
                 (s\<lparr>modules := set_prop (module_id m) m (modules s)\<rparr>)))"

text \<open>
  \<^verbatim>\<open>load_modules(packagefolders)\<close>, each package folder given by its absolute URI (the
  source joins a string to \<^verbatim>\<open>Folder.extendables\<close> first).
\<close>

fun load_modules :: "fsnode \<Rightarrow> uri list \<Rightarrow> state \<Rightarrow> (error + unit) \<times> state" where
  "load_modules root [] s = (Inr (), s)"
| "load_modules root (packagefolder # rest) s =
     (case lookup root packagefolder of
        None \<Rightarrow> (Inl TypeError, s)
      | Some node \<Rightarrow>
          (case getFiles (packagefolder, node) is_valid_module of
             None \<Rightarrow> (Inl TypeError, s)
           | Some packages \<Rightarrow>
               (case register_packages root packages s of
                  (Inl e, s') \<Rightarrow> (Inl e, s')
                | (Inr _, s') \<Rightarrow> load_modules root rest s')))"

text \<open>
  \<^verbatim>\<open>folder.exists\<close> for an object made by \<^verbatim>\<open>new Folder(path)\<close>: the path names a
  folder. A file or an alias of that name is no existing folder.
\<close>

definition folder_exists :: "fsnode \<Rightarrow> uri \<Rightarrow> bool" where
  "folder_exists root path =
     (case lookup root path of Some (Folder n es) \<Rightarrow> True | _ \<Rightarrow> False)"

text \<open>
  \<^verbatim>\<open>Module.get_tests\<close>: \<^verbatim>\<open>new Folder("test").at(self.uri)\<close> is a \<^verbatim>\<open>Folder\<close> object for
  the path \<^verbatim>\<open>self.uri + "/test"\<close> (\<^verbatim>\<open>from_basepath\<close>, line 1665, ends in
  \<^verbatim>\<open>new this.constructor(path)\<close>). \<^verbatim>\<open>getFiles\<close> is called only on an existing folder,
  whose result is never \<^verbatim>\<open>null\<close>.
\<close>

definition get_tests :: "fsnode \<Rightarrow> module \<Rightarrow> fsobj list" where
  "get_tests root self =
     (if folder_exists root (uri self @ [''test'']) then
        (case lookup root (uri self @ [''test'']) of
           None \<Rightarrow> []
         | Some node \<Rightarrow>
             (case getFiles (uri self @ [''test''], node)
                     (\<lambda>f. glob ''*.specs'' (name (snd f))) of
                None \<Rightarrow> []
              | Some files \<Rightarrow> files))
      else [])"

subsection \<open>The log buffer\<close>






subsection \<open>The leaf behind a package\<close>

text \<open>
  The module tree alone, without \<^verbatim>\<open>load\<close>: \<open>index_leaf m\<close> is the leaf module at the
  end of the chain of \<^verbatim>\<open>index\<close> children that starts at \<open>m\<close> (\<open>m\<close> itself when it
  is a leaf), and \<open>None\<close> when the chain breaks at a package without \<^verbatim>\<open>index\<close>.
\<close>

function index_leaf :: "module \<Rightarrow> module option" where
  "index_leaf (Module i u p subs ex) =
     (if p then (case map_of subs ''index'' of None \<Rightarrow> None | Some index \<Rightarrow> index_leaf index)
      else Some (Module i u p subs ex))"
  by pat_completeness auto
termination
proof (relation "measure size", goal_cases)
  case 1
  show ?case by simp
next
  case (2 i u p subs ex index)
  have "size m < Suc (size_list (size_prod (\<lambda>_. 0) size) ps)"
    if "map_of ps k = Some m" for ps :: "(string \<times> module) list" and k m
    using that by (induction ps) (auto split: if_splits)
  from this [OF 2(2)] show ?case by simp
qed

subsection \<open>The module that require loads\<close>

text \<open>
  The part of \<^verbatim>\<open>require\<close> before \<^verbatim>\<open>load\<close>, on the registry alone: the module object
  on which \<^verbatim>\<open>require(mid)\<close> calls \<^verbatim>\<open>load()\<close>, or \<open>None\<close> when the first segment is
  no key of the registry or \<^verbatim>\<open>get_submodule\<close> does not reach a module.
\<close>

definition find_module :: "(string \<times> module) list \<Rightarrow> string \<Rightarrow> module option" where
  "find_module registry mid =
     (let terms0 = split CHR ''/'' mid; module = hd terms0; terms = tl terms0 in
      case map_of registry module of
        None \<Rightarrow> None
      | Some m \<Rightarrow>
          (if terms \<noteq> [] then
             (case get_submodule m terms of Inr (Some sub) \<Rightarrow> Some sub | _ \<Rightarrow> None)
           else Some m))"

subsection \<open>Example inputs\<close>

text \<open>
  An evaluator for four kinds of source: \<^verbatim>\<open>bad\<close> raises before it exports anything,
  \<^verbatim>\<open>good\<close> exports \<^verbatim>\<open>{ok: true}\<close>, \<^verbatim>\<open>counter\<close> increments the global \<^verbatim>\<open>runs\<close> and
  exports its new value, every other module exports \<^verbatim>\<open>{x: 1}\<close>.
\<close>

definition evalFile_demo :: evalFile where
  "evalFile_demo file i lb g =
     (if i = ''bad'' then
        \<lparr>raised = Some ''Error: boom'', exports_after = [], module_id_after = Some i,
         log_buffer_after = lb, global_after = g\<rparr>
      else if i = ''good'' then
        \<lparr>raised = None, exports_after = [(''ok'', Bool True)], module_id_after = Some i,
         log_buffer_after = lb, global_after = g\<rparr>
      else if i = ''counter'' then
        (case map_of g ''runs'' of
           Some (Num n) \<Rightarrow>
             \<lparr>raised = None, exports_after = [(''n'', Num (n + 1))], module_id_after = Some i,
              log_buffer_after = lb, global_after = set_prop ''runs'' (Num (n + 1)) g\<rparr>
         | _ \<Rightarrow>
             \<lparr>raised = None, exports_after = [(''n'', Num 1)], module_id_after = Some i,
              log_buffer_after = lb, global_after = set_prop ''runs'' (Num 1) g\<rparr>)
      else
        \<lparr>raised = None, exports_after = [(''x'', Num 1)], module_id_after = Some i,
         log_buffer_after = lb, global_after = g\<rparr>)"


text \<open>
  An evaluator under which every source counts its evaluations in the global
  \<^verbatim>\<open>runs\<close> and exports the count.
\<close>

definition evalFile_counting :: evalFile where
  "evalFile_counting file i lb g =
     (case map_of g ''runs'' of
        Some (Num n) \<Rightarrow>
          \<lparr>raised = None, exports_after = [(''n'', Num (n + 1))], module_id_after = Some i,
           log_buffer_after = lb, global_after = set_prop ''runs'' (Num (n + 1)) g\<rparr>
      | _ \<Rightarrow>
          \<lparr>raised = None, exports_after = [(''n'', Num 1)], module_id_after = Some i,
           log_buffer_after = lb, global_after = set_prop ''runs'' (Num 1) g\<rparr>)"

text \<open>A package folder with three single-file modules and two packages.\<close>

definition fs_demo :: fsnode where
  "fs_demo =
     Folder []
       [Folder ''pkgs''
          [File ''counter.jsx'', File ''good.jsx'', File ''bad.jsx'',
           Folder ''p''
             [Folder ''lib'' [File ''index.jsx'', File ''r.jsx''],
              Folder ''test'' [File ''sample.specs'', File ''notes.txt'']],
           Folder ''noindex'' [Folder ''lib'' [File ''util.jsx'']]]]"

text \<open>The state before \<^verbatim>\<open>load_modules\<close> runs, and the state it leaves for \<open>fs_demo\<close>.\<close>

definition state_init :: state where
  "state_init = \<lparr>modules = [], log_buffer = [], global = []\<rparr>"

definition state_demo :: state where
  "state_demo =
     \<lparr>modules =
        [(''counter'', Module ''counter'' [''pkgs'', ''counter.jsx''] False [] None),
         (''good'', Module ''good'' [''pkgs'', ''good.jsx''] False [] None),
         (''bad'', Module ''bad'' [''pkgs'', ''bad.jsx''] False [] None),
         (''p'', Module ''p'' [''pkgs'', ''p''] True
            [(''index'', Module ''index'' [''pkgs'', ''p'', ''lib'', ''index.jsx''] False [] None),
             (''r'', Module ''r'' [''pkgs'', ''p'', ''lib'', ''r.jsx''] False [] None)] None),
         (''noindex'', Module ''noindex'' [''pkgs'', ''noindex''] True
            [(''util'', Module ''util'' [''pkgs'', ''noindex'', ''lib'', ''util.jsx''] False [] None)]
            None)],
      log_buffer = [], global = []\<rparr>"

text \<open>
  A registry with the package \<^verbatim>\<open>c\<close>, whose \<^verbatim>\<open>lib\<close> holds \<^verbatim>\<open>index.jsx\<close> and the folder
  \<^verbatim>\<open>sub\<close> with an \<^verbatim>\<open>index.jsx\<close> of its own.
\<close>

definition state_nested :: state where
  "state_nested =
     \<lparr>modules =
        [(''c'', Module ''c'' [''pkgs'', ''c''] True
            [(''index'', Module ''index'' [''pkgs'', ''c'', ''lib'', ''index.jsx''] False [] None),
             (''sub'', Module ''sub'' [''pkgs'', ''c'', ''lib'', ''sub''] True
                [(''index'',
                  Module ''index'' [''pkgs'', ''c'', ''lib'', ''sub'', ''index.jsx''] False [] None)]
                None)]
            None)],
      log_buffer = [], global = []\<rparr>"

text \<open>
  Three packages: \<^verbatim>\<open>a\<close> has a \<^verbatim>\<open>test\<close> folder that holds a file and a folder named
  \<^verbatim>\<open>*.specs\<close> and one other file, \<^verbatim>\<open>b\<close> has a plain file named \<^verbatim>\<open>test\<close>, \<^verbatim>\<open>c\<close> has
  nothing of that name.
\<close>

definition fs_tests :: fsnode where
  "fs_tests =
     Folder []
       [Folder ''pkgs''
          [Folder ''a''
             [Folder ''lib'' [File ''index.jsx''],
              Folder ''test''
                [File ''sample.specs'', File ''notes.txt'',
                 Folder ''suite.specs'' [File ''inner.specs'']]],
           Folder ''b'' [Folder ''lib'' [File ''index.jsx''], File ''test''],
           Folder ''c'' [Folder ''lib'' [File ''index.jsx'']]]]"

text \<open>
  A package folder with an alias at top level and an alias inside a package's
  \<^verbatim>\<open>lib\<close>; both point to folders.
\<close>

definition fs_alias :: fsnode where
  "fs_alias =
     Folder []
       [Folder ''pkgs''
          [Folder ''p''
             [Folder ''lib'' [File ''index.jsx'', Alias ''linked.jsx'' [''real'', ''linked'']]],
           Alias ''q.jsx'' [''real'', ''q'']],
        Folder ''real''
          [Folder ''linked'' [File ''index.jsx''],
           Folder ''q'' [Folder ''lib'' [File ''index.jsx'']]]]"

section \<open>Auxiliary facts\<close>

lemma split_not_Nil: "split sep s \<noteq> []"
  by (induction s) (auto split: list.splits)

lemma split_no_sep: "sep \<notin> set p \<Longrightarrow> split sep p = [p]"
  by (induction p) auto

lemma split_append: "split sep (a @ sep # b) = split sep a @ split sep b"
proof (induction a)
  case Nil
  show ?case by simp
next
  case (Cons c a)
  then show ?case using split_not_Nil [of sep a] by (auto split: list.splits)
qed

lemma split_index: "split CHR ''/'' (mid @ ''/index'') = split CHR ''/'' mid @ [''index'']"
  using split_append [of "CHR ''/''" mid "''index''"] by simp

lemma map_of_set_prop: "map_of (set_prop k v ps) = (map_of ps)(k \<mapsto> v)"
  by (induction ps) auto



lemma map_of_fold_set_prop:
  "map_of (fold (\<lambda>name g. set_prop name (f name) g) ns g0) n =
     (if n \<in> set ns then Some (f n) else map_of g0 n)"
  by (induction ns arbitrary: g0) (auto simp: map_of_set_prop)

subsection \<open>load and the leaf it evaluates\<close>

lemma eval_module_id:
  "module_id a = module_id b \<Longrightarrow> eval ev a f s = eval ev b f s"
  by (simp add: eval_def)

lemma eval_modules: "modules (snd (eval ev a f s)) = modules s"
  by (simp add: eval_def Let_def split: option.splits)

lemma load_no_index:
  "packaged m \<Longrightarrow> map_of (submodules m) ''index'' = None \<Longrightarrow> load ev m s = (Inl TypeError, s)"
  by (cases m) simp


lemma load_package:
  "packaged m \<Longrightarrow> map_of (submodules m) ''index'' = Some idx \<Longrightarrow>
     load ev m s =
       (case load ev idx s of
          (Inl e, s') \<Rightarrow> (Inl e, s')
        | (Inr idx', s') \<Rightarrow>
            (Inr (Module (module_id m) (uri m) True
                    (set_prop ''index'' idx' (submodules m)) (exports idx')), s'))"
  by (cases m) (auto split: prod.splits sum.splits)

lemma index_leaf_package:
  "packaged m \<Longrightarrow> map_of (submodules m) ''index'' = Some idx \<Longrightarrow> index_leaf m = index_leaf idx"
  by (cases m) simp

lemma index_leaf_is_leaf: "index_leaf m = Some l \<Longrightarrow> \<not> packaged l"
  by (induction m rule: index_leaf.induct) (auto split: if_splits option.splits)

lemma load_index_leaf_None: "index_leaf m = None \<Longrightarrow> load ev m s = (Inl TypeError, s)"
proof (induction m rule: index_leaf.induct)
  case (1 i u p subs ex)
  then show ?case by (auto split: option.splits if_splits)
qed

lemma load_index_leaf_Some:
  "index_leaf m = Some l \<Longrightarrow>
     snd (load ev m s) = snd (eval ev l (uri l) s) \<and>
     (\<forall>e. fst (eval ev l (uri l) s) = Inl e \<longrightarrow> fst (load ev m s) = Inl e) \<and>
     (\<forall>exps. fst (eval ev l (uri l) s) = Inr exps \<longrightarrow>
        (\<exists>m' l'. fst (load ev m s) = Inr m' \<and> exports m' = Some exps \<and>
           packaged m' = packaged m \<and> index_leaf m' = Some l' \<and>
           module_id l' = module_id l \<and> uri l' = uri l))"
proof (induction m rule: index_leaf.induct)
  case (1 i u p subs ex)
  show ?case
  proof (cases p)
    case False
    with 1(2) have l: "l = Module i u False subs ex" by simp
    obtain r s' where e: "eval ev (Module i u False subs ex) u s = (r, s')"
      by (cases "eval ev (Module i u False subs ex) u s")
    show ?thesis
      using False e unfolding l by (cases r) auto
  next
    case True
    with 1(2) obtain index where idx: "map_of subs ''index'' = Some index"
      and leaf: "index_leaf index = Some l"
      by (auto split: option.splits)
    note IH = 1(1) [OF True idx leaf]
    obtain r s' where ld: "load ev index s = (r, s')" by (cases "load ev index s")
    show ?thesis
    proof (cases r)
      case (Inl e)
      with IH ld True idx show ?thesis by (cases "fst (eval ev l (uri l) s)") auto
    next
      case (Inr index')
      with IH ld True idx show ?thesis
        by (cases "fst (eval ev l (uri l) s)") (auto simp: map_of_set_prop)
    qed
  qed
qed

lemma get_put_submodule:
  "get_submodule m terms = Inr (Some sub) \<Longrightarrow>
     get_submodule (put_submodule m terms sub') terms = Inr (Some sub')"
proof (induction m terms arbitrary: sub rule: get_submodule.induct)
  case (1 self)
  then show ?case by (cases self) (simp add: map_of_set_prop)
next
  case (2 self t)
  then show ?case by (cases self) (simp add: map_of_set_prop)
next
  case (3 self t v va)
  then show ?case by (cases self) (auto simp: map_of_set_prop split: option.splits)
qed

lemma get_submodule_snoc:
  "terms \<noteq> [] \<Longrightarrow> get_submodule m terms = Inr (Some sub) \<Longrightarrow>
     get_submodule m (terms @ [t]) = Inr (map_of (submodules sub) t)"
proof (induction m terms rule: get_submodule.induct)
  case (1 self)
  then show ?case by simp
next
  case (2 self t')
  then show ?case by simp
next
  case (3 self t' v va)
  then show ?case by (auto split: option.splits)
qed

subsection \<open>require: which module it loads\<close>

lemma find_module_registry:
  "find_module registry mid = Some t \<Longrightarrow> map_of registry (hd (split CHR ''/'' mid)) \<noteq> None"
  by (auto simp: find_module_def Let_def split: option.splits)

lemma find_module_index:
  assumes "find_module registry mid = Some t"
  shows "find_module registry (mid @ ''/index'') = map_of (submodules t) ''index''"
proof -
  obtain m where m: "map_of registry (hd (split CHR ''/'' mid)) = Some m"
    using assms by (auto simp: find_module_def Let_def split: option.splits)
  have hd: "hd (split CHR ''/'' mid @ [''index'']) = hd (split CHR ''/'' mid)"
    using split_not_Nil [of "CHR ''/''" mid] by simp
  have tl: "tl (split CHR ''/'' mid @ [''index'']) = tl (split CHR ''/'' mid) @ [''index'']"
    using split_not_Nil [of "CHR ''/''" mid] by simp
  show ?thesis
  proof (cases "tl (split CHR ''/'' mid) = []")
    case True
    with assms m have "t = m" by (simp add: find_module_def Let_def)
    with m True show ?thesis
      by (cases "map_of (submodules m) ''index''")
         (simp_all add: find_module_def Let_def split_index hd tl)
  next
    case False
    with assms m have g: "get_submodule m (tl (split CHR ''/'' mid)) = Inr (Some t)"
      by (auto simp: find_module_def Let_def split: sum.splits option.splits)
    from get_submodule_snoc [OF False g, of "''index''"] m show ?thesis
      by (cases "map_of (submodules t) ''index''")
         (simp_all add: find_module_def Let_def split_index hd tl)
  qed
qed

lemma require_hasOwnProperty:
  "map_of (modules s) ''hasOwnProperty'' \<noteq> None \<Longrightarrow> require ev mid s = (Inl TypeError, s)"
  by (auto simp: require_def Let_def)

lemma require_unknown_package:
  "map_of (modules s) ''hasOwnProperty'' = None \<Longrightarrow>
   map_of (modules s) (hd (split CHR ''/'' mid)) = None \<Longrightarrow>
     require ev mid s = (Inl (Error (''No package named '' @ mid)), s)"
  by (simp add: require_def Let_def)

lemma require_load:
  assumes "map_of (modules s) ''hasOwnProperty'' = None"
    and "find_module (modules s) mid = Some t"
  shows "fst (require ev mid s) = map_sum id exports (fst (load ev t s))"
    and "global (snd (require ev mid s)) = global (snd (load ev t s))"
    and "log_buffer (snd (require ev mid s)) = log_buffer (snd (load ev t s))"
    and "\<forall>e. fst (load ev t s) = Inl e \<longrightarrow> modules (snd (require ev mid s)) = modules (snd (load ev t s))"
    and "\<forall>t'. fst (load ev t s) = Inr t' \<longrightarrow>
           find_module (modules (snd (require ev mid s))) mid = Some t' \<and>
           (\<forall>k. k \<noteq> hd (split CHR ''/'' mid) \<longrightarrow>
              map_of (modules (snd (require ev mid s))) k = map_of (modules (snd (load ev t s))) k)"
proof -
  obtain m where m: "map_of (modules s) (hd (split CHR ''/'' mid)) = Some m"
    using assms(2) by (auto simp: find_module_def Let_def split: option.splits)
  obtain r s' where l: "load ev t s = (r, s')" by (cases "load ev t s")
  have all: "fst (require ev mid s) = map_sum id exports (fst (load ev t s)) \<and>
    global (snd (require ev mid s)) = global (snd (load ev t s)) \<and>
    log_buffer (snd (require ev mid s)) = log_buffer (snd (load ev t s)) \<and>
    (\<forall>e. fst (load ev t s) = Inl e \<longrightarrow> modules (snd (require ev mid s)) = modules (snd (load ev t s))) \<and>
    (\<forall>t'. fst (load ev t s) = Inr t' \<longrightarrow>
           find_module (modules (snd (require ev mid s))) mid = Some t' \<and>
           (\<forall>k. k \<noteq> hd (split CHR ''/'' mid) \<longrightarrow>
              map_of (modules (snd (require ev mid s))) k = map_of (modules (snd (load ev t s))) k))"
  proof (cases "tl (split CHR ''/'' mid) = []")
    case True
    with assms(2) m have "t = m" by (simp add: find_module_def Let_def)
    with assms(1) m True l show ?thesis
      by (cases r) (auto simp: require_def find_module_def Let_def map_of_set_prop)
  next
    case False
    with assms(2) m have g: "get_submodule m (tl (split CHR ''/'' mid)) = Inr (Some t)"
      by (auto simp: find_module_def Let_def split: sum.splits option.splits)
    show ?thesis
    proof (cases r)
      case (Inl e)
      with assms(1) m False g l show ?thesis by (simp add: require_def Let_def)
    next
      case (Inr t')
      with assms(1) m False g l get_put_submodule [OF g, of t'] show ?thesis
        by (simp add: require_def find_module_def Let_def map_of_set_prop)
    qed
  qed
  from all show "fst (require ev mid s) = map_sum id exports (fst (load ev t s))"
    and "global (snd (require ev mid s)) = global (snd (load ev t s))"
    and "log_buffer (snd (require ev mid s)) = log_buffer (snd (load ev t s))"
    and "\<forall>e. fst (load ev t s) = Inl e \<longrightarrow> modules (snd (require ev mid s)) = modules (snd (load ev t s))"
    and "\<forall>t'. fst (load ev t s) = Inr t' \<longrightarrow>
           find_module (modules (snd (require ev mid s))) mid = Some t' \<and>
           (\<forall>k. k \<noteq> hd (split CHR ''/'' mid) \<longrightarrow>
              map_of (modules (snd (require ev mid s))) k = map_of (modules (snd (load ev t s))) k)"
    by blast+
qed

lemma require_eval:
  assumes no: "map_of (modules s) ''hasOwnProperty'' = None"
    and f: "find_module (modules s) mid = Some t"
    and leaf: "index_leaf t = Some l"
  shows "fst (require ev mid s) = map_sum id Some (fst (eval ev l (uri l) s)) \<and>
    global (snd (require ev mid s)) = global (snd (eval ev l (uri l) s)) \<and>
    log_buffer (snd (require ev mid s)) = log_buffer (snd (eval ev l (uri l) s)) \<and>
    map_of (modules (snd (require ev mid s))) ''hasOwnProperty'' = None \<and>
    (\<exists>t' l'. find_module (modules (snd (require ev mid s))) mid = Some t' \<and>
        packaged t' = packaged t \<and> index_leaf t' = Some l' \<and>
        module_id l' = module_id l \<and> uri l' = uri l)"
proof -
  note L = load_index_leaf_Some [OF leaf, of ev s]
  note R = require_load [OF no f, of ev]
  from L have sl: "snd (load ev t s) = snd (eval ev l (uri l) s)" by blast
  have ms: "modules (snd (load ev t s)) = modules s" by (simp add: sl eval_modules)
  show ?thesis
  proof (cases "fst (eval ev l (uri l) s)")
    case (Inl e)
    with L have fl: "fst (load ev t s) = Inl e" by blast
    with R(4) have "modules (snd (require ev mid s)) = modules s" by (simp add: ms)
    with no f leaf R(1,2,3) fl Inl sl show ?thesis by auto
  next
    case (Inr exps)
    with L obtain t' l' where fl: "fst (load ev t s) = Inr t'" and ex: "exports t' = Some exps"
      and pk: "packaged t' = packaged t" and il: "index_leaf t' = Some l'"
      and idl: "module_id l' = module_id l" and ul: "uri l' = uri l" by blast
    from R(5) fl have fm: "find_module (modules (snd (require ev mid s))) mid = Some t'"
      and keys: "\<And>k. k \<noteq> hd (split CHR ''/'' mid) \<Longrightarrow>
         map_of (modules (snd (require ev mid s))) k = map_of (modules s) k"
      by (auto simp: ms)
    from find_module_registry [OF f] no have "''hasOwnProperty'' \<noteq> hd (split CHR ''/'' mid)"
      by auto
    from keys [OF this] no have no': "map_of (modules (snd (require ev mid s))) ''hasOwnProperty'' = None"
      by simp
    from R(1,2,3) fl ex Inr sl no' fm pk il idl ul show ?thesis by auto
  qed
qed

lemma require_returns:
  assumes "require ev mid s = (Inr r, s1)"
  shows "map_of (modules s) ''hasOwnProperty'' = None \<and>
         (\<exists>t l. find_module (modules s) mid = Some t \<and> index_leaf t = Some l)"
proof -
  have no: "map_of (modules s) ''hasOwnProperty'' = None"
    using assms require_hasOwnProperty [of s ev mid] by (cases "map_of (modules s) ''hasOwnProperty''") auto
  obtain t where t: "find_module (modules s) mid = Some t"
    using assms no
    by (cases "find_module (modules s) mid")
       (auto simp: require_def find_module_def Let_def split: option.splits sum.splits if_splits)
  have "index_leaf t \<noteq> None"
  proof
    assume "index_leaf t = None"
    then have "load ev t s = (Inl TypeError, s)" by (rule load_index_leaf_None)
    with require_load(1) [OF no t, of ev] assms show False by simp
  qed
  with no t show ?thesis by auto
qed

subsection \<open>Discovery\<close>








lemma endswith_jsx_examples:
  "endswith ''index.jsx'' ''.jsx''" "endswith ''abc'' ''.jsx''" "\<not> endswith ''a.jsx.jsx'' ''.jsx''"
  by (simp_all add: endswith_def)

text \<open>On \<open>fs_demo\<close>, \<^verbatim>\<open>load_modules\<close> builds the registry of \<open>state_demo\<close>.\<close>

lemma load_modules_demo: "load_modules fs_demo [[''pkgs'']] state_init = (Inr (), state_demo)"
  by (simp add: fs_demo_def state_init_def state_demo_def getFiles_def is_valid_module_def
      endswith_def new_Module.simps changePath_def)

subsection \<open>File masks\<close>

lemma glob_literal:
  "\<forall>c \<in> set p. c \<noteq> CHR ''*'' \<and> c \<noteq> CHR ''?'' \<Longrightarrow> glob p s = (s = p)"
proof (induction p arbitrary: s)
  case Nil
  then show ?case by simp
next
  case (Cons a p)
  then show ?case by (cases s) auto
qed

lemma glob_star_literal:
  assumes "\<forall>c \<in> set p. c \<noteq> CHR ''*'' \<and> c \<noteq> CHR ''?''"
  shows "glob (CHR ''*'' # p) s = suffix p s"
proof (induction s)
  case Nil
  show ?case using glob_literal [OF assms, of "[]"] by auto
next
  case (Cons c cs)
  show ?case using glob_literal [OF assms, of "c # cs"] Cons
    by (auto simp: suffix_Cons)
qed

lemma glob_specs: "glob ''*.specs'' s = suffix ''.specs'' s"
  using glob_star_literal [of "''.specs''" s] by simp

subsection \<open>forEach\<close>



section \<open>The claims\<close>

subsection \<open>C1: load has no cache\<close>

text \<open>
  Claim C1 says that \<^verbatim>\<open>load()\<close> is memoized: a second \<^verbatim>\<open>require(id)\<close> returns the same
  exports and the module body runs once. The source has no cache: \<^verbatim>\<open>load\<close> assigns
  \<^verbatim>\<open>self.exports\<close> and never reads it. With a module that counts its evaluations in
  the global \<^verbatim>\<open>runs\<close> and exports the count, the first \<^verbatim>\<open>require("counter")\<close> returns
  \<^verbatim>\<open>{n: 1}\<close>, the second returns \<^verbatim>\<open>{n: 2}\<close>, and \<^verbatim>\<open>runs\<close> is 2 afterwards.
\<close>

theorem require_twice_counterexample:
  "fst (require evalFile_demo ''counter'' state_demo) = Inr (Some [(''n'', Num 1)]) \<and>
   fst (require evalFile_demo ''counter'' (snd (require evalFile_demo ''counter'' state_demo)))
     = Inr (Some [(''n'', Num 2)]) \<and>
   global (snd (require evalFile_demo ''counter''
      (snd (require evalFile_demo ''counter'' state_demo)))) = [(''runs'', Num 2)]"
  by (simp add: require_def Let_def eval_def evalFile_demo_def state_demo_def)

text \<open>
  Claim C1 as amended: when \<^verbatim>\<open>require(mid)\<close> returns, the identifier names a module
  \<open>t\<close> of the registry whose chain of \<^verbatim>\<open>index\<close> children ends in a leaf module
  \<open>l\<close>, and the call was one run of \<^verbatim>\<open>Module.eval\<close> on the file of \<open>l\<close>: the value
  returned, the globals and the log buffer are those of \<open>eval ev l (uri l) s\<close>. A
  second \<^verbatim>\<open>require(mid)\<close> is a second run of \<^verbatim>\<open>Module.eval\<close> on the same file, in the
  state the first call left: it returns the exports of that second evaluation (or
  raises what the second run raises), and its globals and log buffer are those of
  \<open>eval ev l (uri l) s1\<close>. Nothing is cached.
\<close>

theorem require_evaluates_on_every_call:
  assumes "require ev mid s = (Inr r1, s1)"
  shows "\<exists>t l. find_module (modules s) mid = Some t \<and> index_leaf t = Some l \<and>
      Inr r1 = map_sum id Some (fst (eval ev l (uri l) s)) \<and>
      global s1 = global (snd (eval ev l (uri l) s)) \<and>
      log_buffer s1 = log_buffer (snd (eval ev l (uri l) s)) \<and>
      fst (require ev mid s1) = map_sum id Some (fst (eval ev l (uri l) s1)) \<and>
      global (snd (require ev mid s1)) = global (snd (eval ev l (uri l) s1)) \<and>
      log_buffer (snd (require ev mid s1)) = log_buffer (snd (eval ev l (uri l) s1))"
proof -
  from require_returns [OF assms] obtain t l where
    no: "map_of (modules s) ''hasOwnProperty'' = None"
    and t: "find_module (modules s) mid = Some t" and l: "index_leaf t = Some l" by blast
  from require_eval [OF no t l, of ev] assms obtain t' l' where
    first: "Inr r1 = map_sum id Some (fst (eval ev l (uri l) s))"
      "global s1 = global (snd (eval ev l (uri l) s))"
      "log_buffer s1 = log_buffer (snd (eval ev l (uri l) s))"
    and no': "map_of (modules s1) ''hasOwnProperty'' = None"
    and t': "find_module (modules s1) mid = Some t'" and l': "index_leaf t' = Some l'"
    and same: "module_id l' = module_id l" "uri l' = uri l"
    by auto
  have "eval ev l' (uri l') s1 = eval ev l (uri l) s1"
    using same eval_module_id [of l' l ev "uri l" s1] by simp
  with require_eval [OF no' t' l', of ev] first t l show ?thesis by auto
qed

theorem require_evaluates_on_every_call_witness:
  "require evalFile_demo ''p/index'' state_demo =
     (Inr (Some [(''x'', Num 1)]),
      state_demo\<lparr>modules := set_prop ''p''
        (Module ''p'' [''pkgs'', ''p''] True
            [(''index'', Module ''index'' [''pkgs'', ''p'', ''lib'', ''index.jsx''] False []
                 (Some [(''x'', Num 1)])),
             (''r'', Module ''r'' [''pkgs'', ''p'', ''lib'', ''r.jsx''] False [] None)] None)
        (modules state_demo)\<rparr>) \<and>
   (\<exists>t l. find_module (modules state_demo) ''p/index'' = Some t \<and> index_leaf t = Some l \<and>
      uri l = [''pkgs'', ''p'', ''lib'', ''index.jsx''] \<and>
      fst (require evalFile_demo ''p/index''
             (snd (require evalFile_demo ''p/index'' state_demo))) =
        map_sum id Some (fst (eval evalFile_demo l (uri l)
             (snd (require evalFile_demo ''p/index'' state_demo)))))"
proof -
  have r: "require evalFile_demo ''p/index'' state_demo =
     (Inr (Some [(''x'', Num 1)]),
      state_demo\<lparr>modules := set_prop ''p''
        (Module ''p'' [''pkgs'', ''p''] True
            [(''index'', Module ''index'' [''pkgs'', ''p'', ''lib'', ''index.jsx''] False []
                 (Some [(''x'', Num 1)])),
             (''r'', Module ''r'' [''pkgs'', ''p'', ''lib'', ''r.jsx''] False [] None)] None)
        (modules state_demo)\<rparr>)"
    by (simp add: require_def Let_def eval_def evalFile_demo_def state_demo_def)
  have f: "find_module (modules state_demo) ''p/index'' =
      Some (Module ''index'' [''pkgs'', ''p'', ''lib'', ''index.jsx''] False [] None)"
    by (simp add: find_module_def Let_def state_demo_def)
  from require_evaluates_on_every_call [OF r] obtain t l where
    "find_module (modules state_demo) ''p/index'' = Some t" "index_leaf t = Some l"
    "fst (require evalFile_demo ''p/index''
             (snd (require evalFile_demo ''p/index'' state_demo))) =
        map_sum id Some (fst (eval evalFile_demo l (uri l)
             (snd (require evalFile_demo ''p/index'' state_demo))))"
    by (auto simp: r)
  moreover from this f have "uri l = [''pkgs'', ''p'', ''lib'', ''index.jsx'']" by auto
  ultimately show ?thesis using r by blast
qed

subsection \<open>C2: a missing submodule\<close>

text \<open>
  Claim C2 says that \<^verbatim>\<open>require\<close> names the full identifier in its error whichever
  segment is missing. \<^verbatim>\<open>require\<close> does so for the first segment
  (\<open>require_unknown_package\<close>); \<^verbatim>\<open>get_submodule\<close> has no such check. In the registry
  of \<open>state_demo\<close> the package \<^verbatim>\<open>p\<close> has no submodule \<^verbatim>\<open>q\<close>: \<^verbatim>\<open>require("p/q")\<close> and
  \<^verbatim>\<open>require("p/q/index")\<close> end in the host's \<open>TypeError\<close>, whatever the evaluator,
  while \<^verbatim>\<open>require("nonexistent/q")\<close> raises the error that names the identifier.
\<close>

theorem require_missing_submodule:
  "require ev ''p/q'' state_demo = (Inl TypeError, state_demo) \<and>
   require ev ''p/q/index'' state_demo = (Inl TypeError, state_demo) \<and>
   require ev ''nonexistent/q'' state_demo =
     (Inl (Error ''No package named nonexistent/q''), state_demo)"
  by (simp add: require_def Let_def state_demo_def)

subsection \<open>C3: a source that raises\<close>




subsection \<open>C4: a package re-exports its index\<close>

text \<open>
  Claim C4 says that \<^verbatim>\<open>require("p")\<close> returns the same exports value as
  \<^verbatim>\<open>require("p/index")\<close>. Each of the two calls evaluates the index source anew.
  With an index source that counts its evaluations, \<^verbatim>\<open>require("c")\<close> returns
  \<^verbatim>\<open>{n: 1}\<close> and \<^verbatim>\<open>require("c/index")\<close>, called next, returns \<^verbatim>\<open>{n: 2}\<close>.
\<close>

theorem index_loaded_again_counterexample:
  "fst (require evalFile_counting ''c'' state_nested) = Inr (Some [(''n'', Num 1)]) \<and>
   fst (require evalFile_counting ''c/index'' (snd (require evalFile_counting ''c'' state_nested)))
     = Inr (Some [(''n'', Num 2)])"
  by (simp add: require_def Let_def eval_def evalFile_counting_def state_nested_def)

text \<open>
  Claim C4 as amended: let the identifier \<open>mid\<close> name a package \<open>t\<close>, at top level
  or nested, that has an \<^verbatim>\<open>index\<close> child \<open>idx\<close>. Then \<open>mid/index\<close> names
  \<open>idx\<close>, and both chains of \<^verbatim>\<open>index\<close> children end in the same leaf. When \<^verbatim>\<open>load()\<close>
  on the package returns, it has loaded the index child and the package's \<^verbatim>\<open>exports\<close>
  are that child's \<^verbatim>\<open>exports\<close>. Started in the same state, \<^verbatim>\<open>require(mid)\<close> and
  \<^verbatim>\<open>require(mid/index)\<close> return the same value (or raise the same error) and leave
  the same globals and log buffer. Called one after the other, \<^verbatim>\<open>require(mid)\<close>
  returns the exports of one evaluation of the leaf's file, and \<^verbatim>\<open>require(mid/index)\<close>
  then is a second run of \<^verbatim>\<open>Module.eval\<close> on the same file in the state the first call
  left: the two values are equal exactly when the two evaluations export the same.
\<close>

theorem package_reexports_index:
  assumes "find_module (modules s) mid = Some t"
    and "packaged t"
    and "map_of (submodules t) ''index'' = Some idx"
  shows "find_module (modules s) (mid @ ''/index'') = Some idx \<and>
     index_leaf t = index_leaf idx \<and>
     (\<forall>t' s'. load ev t s = (Inr t', s') \<longrightarrow>
        (\<exists>idx'. load ev idx s = (Inr idx', s') \<and> exports t' = exports idx' \<and>
           map_of (submodules t') ''index'' = Some idx')) \<and>
     fst (require ev mid s) = fst (require ev (mid @ ''/index'') s) \<and>
     global (snd (require ev mid s)) = global (snd (require ev (mid @ ''/index'') s)) \<and>
     log_buffer (snd (require ev mid s)) = log_buffer (snd (require ev (mid @ ''/index'') s)) \<and>
     (\<forall>r1 s1. require ev mid s = (Inr r1, s1) \<longrightarrow>
        (\<exists>l. index_leaf idx = Some l \<and>
           Inr r1 = map_sum id Some (fst (eval ev l (uri l) s)) \<and>
           fst (require ev (mid @ ''/index'') s1) = map_sum id Some (fst (eval ev l (uri l) s1)) \<and>
           global (snd (require ev (mid @ ''/index'') s1)) = global (snd (eval ev l (uri l) s1)) \<and>
           log_buffer (snd (require ev (mid @ ''/index'') s1))
             = log_buffer (snd (eval ev l (uri l) s1))))"
proof -
  have fi: "find_module (modules s) (mid @ ''/index'') = Some idx"
    using find_module_index [OF assms(1)] assms(3) by simp
  have il: "index_leaf t = index_leaf idx"
    using assms(2,3) by (rule index_leaf_package)
  have adopt: "\<forall>t' s'. load ev t s = (Inr t', s') \<longrightarrow>
        (\<exists>idx'. load ev idx s = (Inr idx', s') \<and> exports t' = exports idx' \<and>
           map_of (submodules t') ''index'' = Some idx')"
  proof (intro allI impI)
    fix t' s' assume a: "load ev t s = (Inr t', s')"
    obtain r s'' where l: "load ev idx s = (r, s'')" by (cases "load ev idx s")
    from a l load_package [OF assms(2,3), of ev s]
    show "\<exists>idx'. load ev idx s = (Inr idx', s') \<and> exports t' = exports idx' \<and>
           map_of (submodules t') ''index'' = Some idx'"
      by (cases r) (auto simp: map_of_set_prop)
  qed
  have same: "fst (require ev mid s) = fst (require ev (mid @ ''/index'') s) \<and>
     global (snd (require ev mid s)) = global (snd (require ev (mid @ ''/index'') s)) \<and>
     log_buffer (snd (require ev mid s)) = log_buffer (snd (require ev (mid @ ''/index'') s))"
  proof (cases "map_of (modules s) ''hasOwnProperty'' = None")
    case False
    then show ?thesis by (simp add: require_hasOwnProperty)
  next
    case True
    show ?thesis
    proof (cases "index_leaf idx")
      case None
      with il have "index_leaf t = None" by simp
      from load_index_leaf_None [OF this, of ev s] load_index_leaf_None [OF None, of ev s]
        require_load(1,2,3) [OF True assms(1), of ev] require_load(1,2,3) [OF True fi, of ev]
      show ?thesis by simp
    next
      case (Some l)
      with il have "index_leaf t = Some l" by simp
      from require_eval [OF True assms(1) this, of ev] require_eval [OF True fi Some, of ev]
      show ?thesis by simp
    qed
  qed
  have seq: "\<forall>r1 s1. require ev mid s = (Inr r1, s1) \<longrightarrow>
        (\<exists>l. index_leaf idx = Some l \<and>
           Inr r1 = map_sum id Some (fst (eval ev l (uri l) s)) \<and>
           fst (require ev (mid @ ''/index'') s1) = map_sum id Some (fst (eval ev l (uri l) s1)) \<and>
           global (snd (require ev (mid @ ''/index'') s1)) = global (snd (eval ev l (uri l) s1)) \<and>
           log_buffer (snd (require ev (mid @ ''/index'') s1))
             = log_buffer (snd (eval ev l (uri l) s1)))"
  proof (intro allI impI)
    fix r1 s1 assume a: "require ev mid s = (Inr r1, s1)"
    from require_returns [OF a] assms(1) il obtain l where
      no: "map_of (modules s) ''hasOwnProperty'' = None"
      and l: "index_leaf idx = Some l" and lt: "index_leaf t = Some l" by auto
    from require_eval [OF no assms(1) lt, of ev] a obtain t' l' where
      first: "Inr r1 = map_sum id Some (fst (eval ev l (uri l) s))"
      and no': "map_of (modules s1) ''hasOwnProperty'' = None"
      and t': "find_module (modules s1) mid = Some t'" and pk: "packaged t' = packaged t"
      and l': "index_leaf t' = Some l'"
      and sameid: "module_id l' = module_id l" "uri l' = uri l"
      by auto
    from pk assms(2) have pt': "packaged t'" by simp
    from l' pt' obtain idx' where idx': "map_of (submodules t') ''index'' = Some idx'"
      and li': "index_leaf idx' = Some l'"
      by (cases t') (auto split: option.splits)
    have fi': "find_module (modules s1) (mid @ ''/index'') = Some idx'"
      using find_module_index [OF t'] idx' by simp
    have "eval ev l' (uri l') s1 = eval ev l (uri l) s1"
      using sameid eval_module_id [of l' l ev "uri l" s1] by simp
    with require_eval [OF no' fi' li', of ev] first l
    show "\<exists>l. index_leaf idx = Some l \<and>
           Inr r1 = map_sum id Some (fst (eval ev l (uri l) s)) \<and>
           fst (require ev (mid @ ''/index'') s1) = map_sum id Some (fst (eval ev l (uri l) s1)) \<and>
           global (snd (require ev (mid @ ''/index'') s1)) = global (snd (eval ev l (uri l) s1)) \<and>
           log_buffer (snd (require ev (mid @ ''/index'') s1))
             = log_buffer (snd (eval ev l (uri l) s1))"
      by auto
  qed
  from fi il adopt same seq show ?thesis by blast
qed

theorem package_reexports_index_witness:
  "find_module (modules state_nested) ''c/sub'' =
     Some (Module ''sub'' [''pkgs'', ''c'', ''lib'', ''sub''] True
        [(''index'', Module ''index'' [''pkgs'', ''c'', ''lib'', ''sub'', ''index.jsx''] False [] None)]
        None) \<and>
   find_module (modules state_nested) ''c/sub/index'' =
     Some (Module ''index'' [''pkgs'', ''c'', ''lib'', ''sub'', ''index.jsx''] False [] None) \<and>
   fst (require evalFile_counting ''c/sub'' state_nested) = Inr (Some [(''n'', Num 1)]) \<and>
   fst (require evalFile_counting ''c/sub/index'' state_nested) = Inr (Some [(''n'', Num 1)]) \<and>
   (\<exists>l. index_leaf (Module ''index'' [''pkgs'', ''c'', ''lib'', ''sub'', ''index.jsx''] False [] None)
          = Some l \<and>
      fst (require evalFile_counting ''c/sub/index''
             (snd (require evalFile_counting ''c/sub'' state_nested))) =
        map_sum id Some (fst (eval evalFile_counting l (uri l)
             (snd (require evalFile_counting ''c/sub'' state_nested)))))"
proof -
  have f: "find_module (modules state_nested) ''c/sub'' =
     Some (Module ''sub'' [''pkgs'', ''c'', ''lib'', ''sub''] True
        [(''index'', Module ''index'' [''pkgs'', ''c'', ''lib'', ''sub'', ''index.jsx''] False [] None)]
        None)"
    by (simp add: find_module_def Let_def state_nested_def)
  have r1: "fst (require evalFile_counting ''c/sub'' state_nested) = Inr (Some [(''n'', Num 1)])"
    by (simp add: require_def Let_def eval_def evalFile_counting_def state_nested_def)
  then have r: "require evalFile_counting ''c/sub'' state_nested =
      (Inr (Some [(''n'', Num 1)]), snd (require evalFile_counting ''c/sub'' state_nested))"
    by (metis prod.collapse)
  have p: "packaged (Module ''sub'' [''pkgs'', ''c'', ''lib'', ''sub''] True
        [(''index'', Module ''index'' [''pkgs'', ''c'', ''lib'', ''sub'', ''index.jsx''] False [] None)]
        None)"
    by simp
  have i: "map_of (submodules (Module ''sub'' [''pkgs'', ''c'', ''lib'', ''sub''] True
        [(''index'', Module ''index'' [''pkgs'', ''c'', ''lib'', ''sub'', ''index.jsx''] False [] None)]
        None)) ''index'' =
      Some (Module ''index'' [''pkgs'', ''c'', ''lib'', ''sub'', ''index.jsx''] False [] None)"
    by simp
  note T = package_reexports_index [OF f p i, of evalFile_counting]
  have T': "find_module (modules state_nested) (''c/sub'' @ ''/index'') =
       Some (Module ''index'' [''pkgs'', ''c'', ''lib'', ''sub'', ''index.jsx''] False [] None) \<and>
     fst (require evalFile_counting ''c/sub'' state_nested)
       = fst (require evalFile_counting (''c/sub'' @ ''/index'') state_nested) \<and>
     (\<forall>r1 s1. require evalFile_counting ''c/sub'' state_nested = (Inr r1, s1) \<longrightarrow>
        (\<exists>l. index_leaf (Module ''index'' [''pkgs'', ''c'', ''lib'', ''sub'', ''index.jsx''] False [] None)
               = Some l \<and>
           fst (require evalFile_counting (''c/sub'' @ ''/index'') s1)
             = map_sum id Some (fst (eval evalFile_counting l (uri l) s1))))"
    using T by blast
  from T' r have "\<exists>l. index_leaf (Module ''index'' [''pkgs'', ''c'', ''lib'', ''sub'', ''index.jsx''] False [] None)
          = Some l \<and>
      fst (require evalFile_counting (''c/sub'' @ ''/index'')
             (snd (require evalFile_counting ''c/sub'' state_nested))) =
        map_sum id Some (fst (eval evalFile_counting l (uri l)
             (snd (require evalFile_counting ''c/sub'' state_nested))))"
    by blast
  with T' f r1 show ?thesis by simp
qed

subsection \<open>C5: where submodules are looked for\<close>




subsection \<open>C6: aliases\<close>

text \<open>
  Claim C6 says that every scan resolves an alias before it classifies the entry.
  \<^verbatim>\<open>load_modules\<close> does (\<^verbatim>\<open>if (file_or_folder.alias) file_or_folder =
  file_or_folder.resolve()\<close>); \<^verbatim>\<open>extract_submodules\<close> does not. On \<open>fs_alias\<close> the
  top-level alias \<^verbatim>\<open>q.jsx\<close> becomes the package \<^verbatim>\<open>q\<close> at its target, while the alias
  \<^verbatim>\<open>linked.jsx\<close> inside \<^verbatim>\<open>p/lib\<close>, whose target is a folder, becomes a leaf module
  (\<^verbatim>\<open>packaged\<close> false) at the alias's own URI.
\<close>

theorem alias_in_lib_is_a_leaf:
  "load_modules fs_alias [[''pkgs'']] state_init =
     (Inr (),
      \<lparr>modules =
         [(''p'', Module ''p'' [''pkgs'', ''p''] True
            [(''index'', Module ''index'' [''pkgs'', ''p'', ''lib'', ''index.jsx''] False [] None),
             (''linked'', Module ''linked'' [''pkgs'', ''p'', ''lib'', ''linked.jsx''] False [] None)]
            None),
          (''q'', Module ''q'' [''real'', ''q''] True
            [(''index'', Module ''index'' [''real'', ''q'', ''lib'', ''index.jsx''] False [] None)]
            None)],
       log_buffer = [], global = []\<rparr>) \<and>
   lookup fs_alias [''real'', ''linked''] = Some (Folder ''linked'' [File ''index.jsx''])"
  by (simp add: fs_alias_def state_init_def getFiles_def is_valid_module_def
      endswith_def new_Module.simps changePath_def resolve_def)

subsection \<open>C7: test discovery\<close>

text \<open>
  Claim C7 says that \<^verbatim>\<open>get_tests()\<close> returns exactly the files matching \<^verbatim>\<open>*.specs\<close>.
  \<^verbatim>\<open>testfolder.getFiles("*.specs")\<close> filters by name only (the library's
  \<^verbatim>\<open>Folder.prototype.files\<close>, which drops folders, is not what \<^verbatim>\<open>get_tests\<close> calls):
  for package \<^verbatim>\<open>a\<close> of \<open>fs_tests\<close> the result holds the file \<^verbatim>\<open>sample.specs\<close> and
  the folder \<^verbatim>\<open>suite.specs\<close>.
\<close>

theorem get_tests_returns_folders_counterexample:
  "get_tests fs_tests (Module ''a'' [''pkgs'', ''a''] True [] None) =
     [([''pkgs'', ''a'', ''test'', ''sample.specs''], File ''sample.specs''),
      ([''pkgs'', ''a'', ''test'', ''suite.specs''], Folder ''suite.specs'' [File ''inner.specs''])]"
  by (simp add: get_tests_def folder_exists_def getFiles_def fs_tests_def)

text \<open>
  Claim C7 as amended: when \<^verbatim>\<open>test\<close> under the module's location is a folder,
  \<^verbatim>\<open>get_tests()\<close> returns exactly its entries of any kind (files, folders, aliases)
  whose name ends in \<^verbatim>\<open>.specs\<close>, in directory order, and no other entry; in every
  other case (nothing of that name, or a file or an alias of that name) it returns the
  empty array.
\<close>

theorem get_tests_lists_specs:
  "(lookup root (uri m @ [''test'']) = Some (Folder n es) \<longrightarrow>
      get_tests root m =
        map (\<lambda>e. (uri m @ [''test''] @ [name e], e))
            (filter (\<lambda>e. suffix ''.specs'' (name e)) es)) \<and>
   ((\<forall>n es. lookup root (uri m @ [''test'']) \<noteq> Some (Folder n es)) \<longrightarrow>
      get_tests root m = [])"
  by (auto simp: get_tests_def folder_exists_def getFiles_def glob_specs filter_map comp_def
      split: option.splits fsnode.splits)

theorem get_tests_lists_specs_witness:
  "get_tests fs_tests (Module ''a'' [''pkgs'', ''a''] True [] None) =
     [([''pkgs'', ''a'', ''test'', ''sample.specs''], File ''sample.specs''),
      ([''pkgs'', ''a'', ''test'', ''suite.specs''], Folder ''suite.specs'' [File ''inner.specs''])] \<and>
   lookup fs_tests [''pkgs'', ''b'', ''test''] = Some (File ''test'') \<and>
   get_tests fs_tests (Module ''b'' [''pkgs'', ''b''] True [] None) = [] \<and>
   lookup fs_tests [''pkgs'', ''c'', ''test''] = None \<and>
   get_tests fs_tests (Module ''c'' [''pkgs'', ''c''] True [] None) = []"
  using get_tests_lists_specs
    [of fs_tests "Module ''a'' [''pkgs'', ''a''] True [] None" "''test''"
        "[File ''sample.specs'', File ''notes.txt'', Folder ''suite.specs'' [File ''inner.specs'']]"]
    get_tests_lists_specs [of fs_tests "Module ''b'' [''pkgs'', ''b''] True [] None"]
    get_tests_lists_specs [of fs_tests "Module ''c'' [''pkgs'', ''c''] True [] None"]
  by (simp add: fs_tests_def suffix_def)

subsection \<open>C8: the log buffer\<close>


subsection \<open>C9: a package without index\<close>

text \<open>
  Claim C9: \<^verbatim>\<open>load()\<close> on a package whose children have no \<^verbatim>\<open>index\<close> raises, and so
  does \<^verbatim>\<open>require\<close> of the package's name; the error reaches the caller and the state,
  the log buffer included, is as before the call (no failure message, no exports).
\<close>

theorem load_package_without_index_raises:
  assumes "packaged m" and "map_of (submodules m) ''index'' = None"
  shows "load ev m s = (Inl TypeError, s) \<and>
         (CHR ''/'' \<notin> set p \<and> map_of (modules s) p = Some m \<longrightarrow>
            require ev p s = (Inl TypeError, s))"
  using assms by (simp add: load_no_index require_def split_no_sep)

theorem load_package_without_index_raises_witness:
  "packaged (Module ''noindex'' [''pkgs'', ''noindex''] True
        [(''util'', Module ''util'' [''pkgs'', ''noindex'', ''lib'', ''util.jsx''] False [] None)]
        None) \<and>
   require evalFile_demo ''noindex'' state_demo = (Inl TypeError, state_demo) \<and>
   log_buffer state_demo = []"
  using load_package_without_index_raises
    [of "Module ''noindex'' [''pkgs'', ''noindex''] True
        [(''util'', Module ''util'' [''pkgs'', ''noindex'', ''lib'', ''util.jsx''] False [] None)]
        None" evalFile_demo state_demo "''noindex''"]
  by (simp add: state_demo_def)

subsection \<open>C10: extract copies inherited properties\<close>

text \<open>
  Claim C10: when \<^verbatim>\<open>require\<close> returns an exports object, \<^verbatim>\<open>extract\<close> returns normally
  and has assigned to the global object, under every own property name of the exports
  and under every name that the library installs on \<^verbatim>\<open>Object.prototype\<close>, the value
  that the exports object has for that name; for a name of \<^verbatim>\<open>Object.prototype\<close> that
  the exports do not define themselves this is the inherited function.
\<close>

theorem extract_copies_inherited_properties:
  assumes "require ev mid s = (Inr (Some module), s')"
  shows "fst (extract_module ev mid s) = Inr () \<and>
    (\<forall>n \<in> set (map fst module) \<union> set (map fst Object_prototype).
        map_of (global (snd (extract_module ev mid s))) n = Some (get_prop module n)) \<and>
    (\<forall>n \<in> set (map fst Object_prototype). n \<notin> set (map fst module) \<longrightarrow>
        map_of (global (snd (extract_module ev mid s))) n = map_of Object_prototype n)"
proof -
  have g: "global (snd (extract_module ev mid s)) =
      fold (\<lambda>name g. set_prop name (get_prop module name) g) (for_in module) (global s')"
    and r: "fst (extract_module ev mid s) = Inr ()"
    using assms by (simp_all add: extract_module_def)
  have in1: "n \<in> set (for_in module)"
    if "n \<in> set (map fst module) \<union> set (map fst Object_prototype)" for n
    using that by (auto simp: for_in_def)
  have own: "map_of module n = None" if "n \<notin> set (map fst module)" for n
    using that by (simp add: map_of_eq_None_iff)
  have proto: "\<exists>v. map_of Object_prototype n = Some v"
    if "n \<in> set (map fst Object_prototype)" for n
    using that by (metis map_of_eq_None_iff not_Some_eq set_map)
  show ?thesis
  proof (intro conjI ballI impI)
    show "fst (extract_module ev mid s) = Inr ()" by (rule r)
  next
    fix n assume "n \<in> set (map fst module) \<union> set (map fst Object_prototype)"
    then show "map_of (global (snd (extract_module ev mid s))) n = Some (get_prop module n)"
      using in1 by (simp add: g map_of_fold_set_prop)
  next
    fix n assume a: "n \<in> set (map fst Object_prototype)" and b: "n \<notin> set (map fst module)"
    from proto [OF a] obtain v where v: "map_of Object_prototype n = Some v" by blast
    from a have "n \<in> set (for_in module)" using in1 by blast
    then show "map_of (global (snd (extract_module ev mid s))) n = map_of Object_prototype n"
      using own [OF b] v by (simp add: g map_of_fold_set_prop get_prop_def)
  qed
qed

theorem extract_copies_inherited_properties_witness:
  "require evalFile_demo ''good'' state_demo =
     (Inr (Some [(''ok'', Bool True)]),
      state_demo\<lparr>modules := set_prop ''good''
         (Module ''good'' [''pkgs'', ''good.jsx''] False [] (Some [(''ok'', Bool True)]))
         (modules state_demo)\<rparr>) \<and>
   map_of (global (snd (extract_module evalFile_demo ''good'' state_demo))) ''ok''
     = Some (Bool True) \<and>
   map_of (global (snd (extract_module evalFile_demo ''good'' state_demo))) ''merge''
     = Some (Fn ''merge'') \<and>
   map_of (global (snd (extract_module evalFile_demo ''good'' state_demo))) ''clone''
     = Some (Fn ''clone'') \<and>
   map_of (global (snd (extract_module evalFile_demo ''good'' state_demo))) ''keys''
     = Some (Fn ''keys'')"
proof -
  have r: "require evalFile_demo ''good'' state_demo =
     (Inr (Some [(''ok'', Bool True)]),
      state_demo\<lparr>modules := set_prop ''good''
         (Module ''good'' [''pkgs'', ''good.jsx''] False [] (Some [(''ok'', Bool True)]))
         (modules state_demo)\<rparr>)"
    by (simp add: require_def Let_def eval_def evalFile_demo_def state_demo_def)
  from extract_copies_inherited_properties [OF r] r show ?thesis
    by (simp add: Object_prototype_def get_prop_def)
qed

end
